theory Spec2Isabelle
  imports Complex_Main
begin

section \<open>MusicComposer: score data, bar construction and waveform rendering\<close>

text \<open>
  A shallow embedding of \<^verbatim>\<open>MusicComposer.py\<close>, in two models. The first reads Python
  floats as real numbers and Python integers as \<open>int\<close>; it computes what the code
  computes on inputs whose intermediate results are doubles, and it carries the
  results that rest on integer tests and on exceptions. The second, in the section on
  double-precision arithmetic, rounds after every float operation and carries the
  results about durations, frame counts and sample values. The members of the
  enumerations \<^verbatim>\<open>Tone\<close>, \<^verbatim>\<open>Sign\<close> and \<^verbatim>\<open>Dynamic\<close> enter the arithmetic of
  \<^verbatim>\<open>Note.frequency\<close> and \<^verbatim>\<open>Composition.convertToWaveData\<close> through their numeric payloads,
  which the functions \<open>Tone_value\<close>, \<open>Sign_value\<close> and \<open>Dynamic_value\<close> give (the \<^verbatim>\<open>enum\<close>
  module is not part of the repository; the members are read as the numbers they are
  declared with, which is how the specification reads them). Every exception the code
  can raise on these inputs is a value of the type \<open>error\<close>.
\<close>


subsection \<open>Enumerations\<close>

datatype Tone = Tone_C | Tone_D | Tone_E | Tone_F | Tone_G | Tone_A | Tone_B

fun Tone_value :: "Tone \<Rightarrow> int" where
  "Tone_value Tone_C = 0"
| "Tone_value Tone_D = 2"
| "Tone_value Tone_E = 4"
| "Tone_value Tone_F = 5"
| "Tone_value Tone_G = 7"
| "Tone_value Tone_A = 9"
| "Tone_value Tone_B = 11"

datatype Sign = Sign_DoubleFlat | Sign_Flat | Sign_HalfFlat | Sign_HalfSharp | Sign_Sharp | Sign_DoubleSharp

fun Sign_value :: "Sign \<Rightarrow> real" where
  "Sign_value Sign_DoubleFlat = - 2"
| "Sign_value Sign_Flat = - 1"
| "Sign_value Sign_HalfFlat = - (1 / 2)"
| "Sign_value Sign_HalfSharp = 1 / 2"
| "Sign_value Sign_Sharp = 1"
| "Sign_value Sign_DoubleSharp = 2"

datatype Dynamic = Dynamic_ppp | Dynamic_pp | Dynamic_p | Dynamic_mp | Dynamic_mf | Dynamic_f | Dynamic_ff | Dynamic_fff

fun Dynamic_value :: "Dynamic \<Rightarrow> int" where
  "Dynamic_value Dynamic_ppp = 16"
| "Dynamic_value Dynamic_pp = 33"
| "Dynamic_value Dynamic_p = 49"
| "Dynamic_value Dynamic_mp = 64"
| "Dynamic_value Dynamic_mf = 80"
| "Dynamic_value Dynamic_f = 96"
| "Dynamic_value Dynamic_ff = 112"
| "Dynamic_value Dynamic_fff = 126"

subsection \<open>Errors\<close>

datatype error = AttributeError | ZeroDivisionError | ValueError | OverflowError

subsection \<open>Note\<close>

text \<open>
  The attributes \<^verbatim>\<open>Note.__init__\<close> sets. \<open>tone = None\<close> is a rest. \<open>sign\<close> is a number:
  the callers in \<^verbatim>\<open>main\<close> pass \<^verbatim>\<open>sign=1\<close>, and a member of \<open>Sign\<close> is passed as
  \<open>Sign_value\<close> of it.
\<close>

record Note =
  duration :: real
  tone :: "Tone option"
  octave :: int
  sign :: real
  dynamic :: Dynamic

text \<open>
  \<^verbatim>\<open>Note.__init__(duration, tone=None, octave=0, sign=0, dynamic=Dynamic.mf)\<close>: the body is
  five assignments, \<^verbatim>\<open>float(duration)\<close> and \<^verbatim>\<open>int(octave)\<close> being the identity on a real
  and on an integer. Nothing is checked and nothing is raised, so the result is always
  \<open>Inr\<close>.
\<close>

definition Note_init :: "real \<Rightarrow> Tone option \<Rightarrow> int \<Rightarrow> real \<Rightarrow> Dynamic \<Rightarrow> error + Note" where
  "Note_init d t oc s dy =
     Inr \<lparr>duration = d, tone = t, octave = oc, sign = s, dynamic = dy\<rparr>"

text \<open>\<^verbatim>\<open>Note(duration)\<close> with every default argument.\<close>

definition Note_rest :: "real \<Rightarrow> error + Note" where
  "Note_rest d = Note_init d None 0 0 Dynamic_mf"

text \<open>
  \<^verbatim>\<open>Note.frequency\<close>: \<open>None\<close> for a rest, otherwise
  \<^verbatim>\<open>440*math.pow(2, (self.octave*12+self.tone+self.sign)/12.0)\<close>.
\<close>

definition frequency :: "Note \<Rightarrow> real option" where
  "frequency n =
     (case tone n of
        None \<Rightarrow> None
      | Some t \<Rightarrow>
          let octaves = (real_of_int (octave n * 12 + Tone_value t) + sign n) / 12
          in Some (440 * 2 powr octaves))"

subsection \<open>Bar\<close>

text \<open>The attributes of a \<^verbatim>\<open>Bar\<close>; \<open>Bar_notes\<close> is \<^verbatim>\<open>self.notes\<close>.\<close>

record Bar =
  numberOfBeats :: int
  divisor :: int
  Bar_notes :: "Note list"

text \<open>
  The loop of \<^verbatim>\<open>Bar.__init__\<close> over the input notes. The state is the list
  \<^verbatim>\<open>self.notes\<close> and \<^verbatim>\<open>notesTotalDuration\<close>. In the overflow branch the arguments of
  \<^verbatim>\<open>Note(barTotalDuration-notesTotalDuration, note.pitch, note.dynamic)\<close> are evaluated
  first; a \<^verbatim>\<open>Note\<close> has the attributes \<^verbatim>\<open>duration, tone, octave, sign, dynamic\<close> and no
  \<^verbatim>\<open>pitch\<close>, so \<^verbatim>\<open>note.pitch\<close> raises \<^verbatim>\<open>AttributeError\<close> and the lines after it
  (the test of the clipped duration, the \<^verbatim>\<open>break\<close>) are never reached.
\<close>

fun Bar_loop :: "real \<Rightarrow> Note list \<Rightarrow> Note list \<Rightarrow> real \<Rightarrow> error + (Note list \<times> real)" where
  "Bar_loop barTotalDuration [] acc notesTotalDuration = Inr (acc, notesTotalDuration)"
| "Bar_loop barTotalDuration (n # ns) acc notesTotalDuration =
     (if notesTotalDuration + duration n > barTotalDuration
      then Inl AttributeError
      else Bar_loop barTotalDuration ns (acc @ [n]) (notesTotalDuration + duration n))"

text \<open>
  \<^verbatim>\<open>Bar.__init__(notes, numberOfBeats, divisor)\<close>.
  \<^verbatim>\<open>float(numberOfBeats)/divisor\<close> raises \<^verbatim>\<open>ZeroDivisionError\<close> for a zero divisor.
\<close>

definition Bar_init :: "Note list \<Rightarrow> int \<Rightarrow> int \<Rightarrow> error + Bar" where
  "Bar_init ns beats dv =
     (if dv = 0 then Inl ZeroDivisionError
      else
        let barTotalDuration = real_of_int beats / real_of_int dv
        in case Bar_loop barTotalDuration ns [] 0 of
             Inl e \<Rightarrow> Inl e
           | Inr (acc, notesTotalDuration) \<Rightarrow>
               if notesTotalDuration < barTotalDuration
               then (case Note_rest (barTotalDuration - notesTotalDuration) of
                       Inl e \<Rightarrow> Inl e
                     | Inr r \<Rightarrow>
                         Inr \<lparr>numberOfBeats = beats, divisor = dv, Bar_notes = acc @ [r]\<rparr>)
               else Inr \<lparr>numberOfBeats = beats, divisor = dv, Bar_notes = acc\<rparr>)"

subsection \<open>Composition and waveform data\<close>

record Composition =
  bars :: "Bar list"
  bpm :: real

text \<open>\<^verbatim>\<open>Composition.__init__(bars, bpm)\<close>, with \<^verbatim>\<open>float(bpm)\<close> the identity on a real.\<close>

definition Composition_init :: "Bar list \<Rightarrow> real \<Rightarrow> Composition" where
  "Composition_init bs t = \<lparr>bars = bs, bpm = t\<rparr>"

definition TWO_PI :: real where
  "TWO_PI = 2 * pi"

text \<open>Python's \<^verbatim>\<open>int(x)\<close> on a float: truncation towards zero.\<close>

definition py_int :: "real \<Rightarrow> int" where
  "py_int r = (if 0 \<le> r then \<lfloor>r\<rfloor> else \<lceil>r\<rceil>)"

text \<open>\<^verbatim>\<open>xrange(n)\<close>: the indices \<open>0, \<dots>, n - 1\<close>, none for \<open>n \<le> 0\<close>.\<close>

definition xrange :: "int \<Rightarrow> nat list" where
  "xrange n = [0..<nat n]"

text \<open>\<^verbatim>\<open>chr(i)\<close>: one byte, \<^verbatim>\<open>ValueError\<close> outside \<open>range(256)\<close>.\<close>

definition chr_py :: "int \<Rightarrow> error + char" where
  "chr_py i = (if 0 \<le> i \<and> i < 256 then Inr (char_of i) else Inl ValueError)"

text \<open>Float division, \<^verbatim>\<open>ZeroDivisionError\<close> for a zero divisor.\<close>

definition fdiv :: "real \<Rightarrow> real \<Rightarrow> error + real" where
  "fdiv a b = (if b = 0 then Inl ZeroDivisionError else Inr (a / b))"

text \<open>
  The fade lengths of a pitched note: \<^verbatim>\<open>fadingFrames = int(0.01*bitRate)\<close>, lowered to
  \<^verbatim>\<open>numberOfFrames\<close> when larger, then halved with the integer division of Python 2
  (\<^verbatim>\<open>fadingFrames/2\<close> and \<^verbatim>\<open>(fadingFrames+1)/2\<close>, both rounding down).
\<close>

definition fadingFrames :: "int \<Rightarrow> int \<Rightarrow> int" where
  "fadingFrames bitRate numberOfFrames =
     (let ff = py_int (1 / 100 * real_of_int bitRate)
      in if ff > numberOfFrames then numberOfFrames else ff)"

definition fadeInFrames :: "int \<Rightarrow> int \<Rightarrow> int" where
  "fadeInFrames bitRate numberOfFrames = fadingFrames bitRate numberOfFrames div 2"

definition fadeOutFrames :: "int \<Rightarrow> int \<Rightarrow> int" where
  "fadeOutFrames bitRate numberOfFrames = (fadingFrames bitRate numberOfFrames + 1) div 2"

text \<open>
  The value of \<^verbatim>\<open>frame\<close> after \<^verbatim>\<open>frame += 128\<close> in the loop body of a pitched note, at
  the index \<open>x\<close>. Each of the three divisions is a branch that can raise.
\<close>

definition frame_at :: "int \<Rightarrow> real \<Rightarrow> real \<Rightarrow> int \<Rightarrow> int \<Rightarrow> int \<Rightarrow> nat \<Rightarrow> error + real" where
  "frame_at bitRate freq amplitude numberOfFrames fadeIn fadeOut x =
     (let x_f = real x
      in case fdiv x_f (real_of_int bitRate) of
           Inl e \<Rightarrow> Inl e
         | Inr q \<Rightarrow>
             let frame = sin (q * freq * TWO_PI)
             in if int x < fadeIn
                then (case fdiv x_f (real_of_int fadeIn) of
                        Inl e \<Rightarrow> Inl e
                      | Inr r \<Rightarrow> Inr (frame * (r * amplitude) + 128))
                else if int x \<ge> numberOfFrames - fadeOut
                then (case fdiv (x_f - real_of_int (numberOfFrames - fadeOut))
                             (real_of_int fadeOut) of
                        Inl e \<Rightarrow> Inl e
                      | Inr r \<Rightarrow> Inr (frame * ((1 - r) * amplitude) + 128))
                else Inr (frame * amplitude + 128))"

text \<open>The loop over \<^verbatim>\<open>xrange(numberOfFrames)\<close> for a rest: \<^verbatim>\<open>chunk += chr(128)\<close>.\<close>

fun rest_loop :: "nat list \<Rightarrow> string \<Rightarrow> error + string" where
  "rest_loop [] chunk = Inr chunk"
| "rest_loop (x # xs) chunk =
     (case chr_py 128 of
        Inl e \<Rightarrow> Inl e
      | Inr c \<Rightarrow> rest_loop xs (chunk @ [c]))"

text \<open>The loop for a pitched note: \<^verbatim>\<open>chunk += chr(int(frame))\<close>.\<close>

fun pitched_loop ::
  "int \<Rightarrow> real \<Rightarrow> real \<Rightarrow> int \<Rightarrow> int \<Rightarrow> int \<Rightarrow> nat list \<Rightarrow> string \<Rightarrow> error + string" where
  "pitched_loop bitRate freq amplitude numberOfFrames fadeIn fadeOut [] chunk = Inr chunk"
| "pitched_loop bitRate freq amplitude numberOfFrames fadeIn fadeOut (x # xs) chunk =
     (case frame_at bitRate freq amplitude numberOfFrames fadeIn fadeOut x of
        Inl e \<Rightarrow> Inl e
      | Inr frame \<Rightarrow>
          (case chr_py (py_int frame) of
             Inl e \<Rightarrow> Inl e
           | Inr c \<Rightarrow>
               pitched_loop bitRate freq amplitude numberOfFrames fadeIn fadeOut xs
                 (chunk @ [c])))"

text \<open>
  \<^verbatim>\<open>numberOfFrames = int(bitRate*duration)\<close> with
  \<^verbatim>\<open>duration = bar.divisor*note.duration/bps\<close>.
\<close>

definition numberOfFrames :: "real \<Rightarrow> int \<Rightarrow> Bar \<Rightarrow> Note \<Rightarrow> error + int" where
  "numberOfFrames bps bitRate b n =
     (case fdiv (real_of_int (divisor b) * duration n) bps of
        Inl e \<Rightarrow> Inl e
      | Inr d \<Rightarrow> Inr (py_int (real_of_int bitRate * d)))"

text \<open>The body of the inner loop of \<^verbatim>\<open>convertToWaveData\<close>: the chunk of one note.\<close>

definition render_note :: "real \<Rightarrow> int \<Rightarrow> Bar \<Rightarrow> Note \<Rightarrow> error + string" where
  "render_note bps bitRate b n =
     (case numberOfFrames bps bitRate b n of
        Inl e \<Rightarrow> Inl e
      | Inr nf \<Rightarrow>
          (case frequency n of
             None \<Rightarrow> rest_loop (xrange nf) []
           | Some freq \<Rightarrow>
               pitched_loop bitRate freq (real_of_int (Dynamic_value (dynamic n))) nf
                 (fadeInFrames bitRate nf) (fadeOutFrames bitRate nf) (xrange nf) []))"

fun notes_loop :: "real \<Rightarrow> int \<Rightarrow> Bar \<Rightarrow> Note list \<Rightarrow> string list \<Rightarrow> error + string list" where
  "notes_loop bps bitRate b [] waveData = Inr waveData"
| "notes_loop bps bitRate b (n # ns) waveData =
     (case render_note bps bitRate b n of
        Inl e \<Rightarrow> Inl e
      | Inr chunk \<Rightarrow> notes_loop bps bitRate b ns (waveData @ [chunk]))"

fun bars_loop :: "real \<Rightarrow> int \<Rightarrow> Bar list \<Rightarrow> string list \<Rightarrow> error + string list" where
  "bars_loop bps bitRate [] waveData = Inr waveData"
| "bars_loop bps bitRate (b # bs) waveData =
     (case notes_loop bps bitRate b (Bar_notes b) waveData of
        Inl e \<Rightarrow> Inl e
      | Inr waveData' \<Rightarrow> bars_loop bps bitRate bs waveData')"

text \<open>\<^verbatim>\<open>Composition.convertToWaveData(bitRate)\<close>, with \<^verbatim>\<open>bps = self.bpm/60\<close>.\<close>

definition convertToWaveData :: "Composition \<Rightarrow> int \<Rightarrow> error + string list" where
  "convertToWaveData c bitRate = bars_loop (bpm c / 60) bitRate (bars c) []"

subsection \<open>Closed forms of the rendering loops\<close>

text \<open>
  The factor that the three branches of the loop body of a pitched note put on the
  amplitude: the fade-in ramp, the fade-out ramp, or 1.
\<close>

definition envelope :: "int \<Rightarrow> int \<Rightarrow> int \<Rightarrow> nat \<Rightarrow> real" where
  "envelope nf fadeIn fadeOut x =
     (if int x < fadeIn then real x / real_of_int fadeIn
      else if int x \<ge> nf - fadeOut
      then 1 - (real x - real_of_int (nf - fadeOut)) / real_of_int fadeOut
      else 1)"

text \<open>The value of \<^verbatim>\<open>frame\<close> after \<^verbatim>\<open>frame += 128\<close>, without the error branches.\<close>

definition frame_value :: "int \<Rightarrow> real \<Rightarrow> real \<Rightarrow> int \<Rightarrow> int \<Rightarrow> int \<Rightarrow> nat \<Rightarrow> real" where
  "frame_value bitRate freq amplitude nf fadeIn fadeOut x =
     sin (real x / real_of_int bitRate * freq * TWO_PI) * (envelope nf fadeIn fadeOut x * amplitude) + 128"

text \<open>\<^verbatim>\<open>numberOfFrames\<close> of a note, without the error branch.\<close>

definition frames_of :: "real \<Rightarrow> int \<Rightarrow> Bar \<Rightarrow> Note \<Rightarrow> int" where
  "frames_of bps bitRate b n =
     py_int (real_of_int bitRate * (real_of_int (divisor b) * duration n / bps))"

text \<open>The chunk of one note: what the loops append for it when no error is raised.\<close>

definition chunk_of :: "real \<Rightarrow> int \<Rightarrow> Bar \<Rightarrow> Note \<Rightarrow> string" where
  "chunk_of bps bitRate b n =
     (let nf = frames_of bps bitRate b n
      in case frequency n of
           None \<Rightarrow> replicate (nat nf) (CHR 0x80)
         | Some freq \<Rightarrow>
             map (\<lambda>x. char_of (py_int (frame_value bitRate freq
                     (real_of_int (Dynamic_value (dynamic n))) nf
                     (fadeInFrames bitRate nf) (fadeOutFrames bitRate nf) x)))
               (xrange nf))"

text \<open>
  The notes of a composition in the order the two nested loops visit them, each with
  its bar.
\<close>

definition score :: "Composition \<Rightarrow> (Bar \<times> Note) list" where
  "score c = concat (map (\<lambda>b. map (Pair b) (Bar_notes b)) (bars c))"


subsection \<open>The sample of a pitched note as the specification words it\<close>



section \<open>Double-precision arithmetic\<close>

text \<open>
  The definitions above read a Python float as a real number; they compute what the
  code computes whenever every intermediate result is a double (dyadic durations,
  whole tempos). The definitions of this section make the rounding explicit. Each float
  operation of the code is the exact operation followed by the rounding \<open>rnd\<close> of the
  result to a double; \<^verbatim>\<open>math.sin\<close>, \<^verbatim>\<open>math.pow\<close> and \<^verbatim>\<open>math.pi\<close> belong to the platform's
  mathematical library, which is not part of the repository, and are parameters too.
  Integer literals of the code (12.0, 60, 128, 440) are doubles and written as they
  are. Results are finite reals: a run in which a float operation yields \<^verbatim>\<open>inf\<close> or
  \<^verbatim>\<open>nan\<close> is outside the model, except for the \<^verbatim>\<open>OverflowError\<close> of \<^verbatim>\<open>math.pow\<close>.
\<close>

record float_arith =
  rnd :: "real \<Rightarrow> real"
  sin_fl :: "real \<Rightarrow> real"
  pow2_fl :: "real \<Rightarrow> real"
  pi_fl :: real

text \<open>
  What the theorems use of the rounding, all of it true of rounding to the nearest
  double: it is monotone, it leaves a double unchanged, and the integers up to
  \<open>2 ^ 53\<close> are doubles.
\<close>

definition float_rounding :: "(real \<Rightarrow> real) \<Rightarrow> bool" where
  "float_rounding r \<longleftrightarrow>
     (\<forall>x y. x \<le> y \<longrightarrow> r x \<le> r y) \<and>
     (\<forall>x. r (r x) = r x) \<and>
     (\<forall>k::int. \<bar>k\<bar> \<le> 2 ^ 53 \<longrightarrow> r (real_of_int k) = real_of_int k)"

text \<open>Arithmetic without rounding error, which is the reading of the first model.\<close>

definition exact_arith :: float_arith where
  "exact_arith = \<lparr>rnd = (\<lambda>x. x), sin_fl = sin, pow2_fl = (\<lambda>y. 2 powr y), pi_fl = pi\<rparr>"

text \<open>The largest double.\<close>

definition DBL_MAX :: real where
  "DBL_MAX = (2 ^ 53 - 1) * 2 ^ 971"

text \<open>Float division: \<^verbatim>\<open>ZeroDivisionError\<close> for a zero divisor, else the rounded quotient.\<close>

definition fdiv_fl :: "float_arith \<Rightarrow> real \<Rightarrow> real \<Rightarrow> error + real" where
  "fdiv_fl fa a b = (if b = 0 then Inl ZeroDivisionError else Inr (rnd fa (a / b)))"

text \<open>
  \<^verbatim>\<open>math.pow(2, y)\<close> for a double \<open>y\<close>: \<^verbatim>\<open>OverflowError\<close> when the result exceeds the largest
  double, which is the case exactly from \<open>y = 1024\<close> on (\<open>2 powr y\<close> is below \<open>DBL_MAX\<close> for
  the largest double under 1024); otherwise the library's result, which underflows to
  0 for very negative \<open>y\<close>.
\<close>

definition math_pow2 :: "float_arith \<Rightarrow> real \<Rightarrow> error + real" where
  "math_pow2 fa y = (if 1024 \<le> y then Inl OverflowError else Inr (pow2_fl fa y))"

text \<open>
  \<^verbatim>\<open>octaves = (self.octave*12+self.tone+self.sign)/12.0\<close>: the integer part is exact,
  adding the sign and dividing round.
\<close>

definition octaves_fl :: "float_arith \<Rightarrow> Note \<Rightarrow> Tone \<Rightarrow> real" where
  "octaves_fl fa n t =
     rnd fa (rnd fa (rnd fa (real_of_int (octave n * 12 + Tone_value t)) + sign n) / 12)"

text \<open>\<^verbatim>\<open>Note.frequency\<close> in double arithmetic.\<close>

definition frequency_fl :: "float_arith \<Rightarrow> Note \<Rightarrow> error + real option" where
  "frequency_fl fa n =
     (case tone n of
        None \<Rightarrow> Inr None
      | Some t \<Rightarrow>
          (case math_pow2 fa (octaves_fl fa n t) of
             Inl e \<Rightarrow> Inl e
           | Inr pw \<Rightarrow> Inr (Some (rnd fa (440 * pw)))))"

text \<open>
  The loop of \<^verbatim>\<open>Bar.__init__\<close> in double arithmetic: the running sum
  \<^verbatim>\<open>notesTotalDuration+note.duration\<close> is rounded, in the test and in the update.
\<close>

fun Bar_loop_fl ::
  "float_arith \<Rightarrow> real \<Rightarrow> Note list \<Rightarrow> Note list \<Rightarrow> real \<Rightarrow> error + (Note list \<times> real)" where
  "Bar_loop_fl fa barTotalDuration [] acc notesTotalDuration = Inr (acc, notesTotalDuration)"
| "Bar_loop_fl fa barTotalDuration (n # ns) acc notesTotalDuration =
     (if rnd fa (notesTotalDuration + duration n) > barTotalDuration
      then Inl AttributeError
      else Bar_loop_fl fa barTotalDuration ns (acc @ [n])
             (rnd fa (notesTotalDuration + duration n)))"

text \<open>
  \<^verbatim>\<open>Bar.__init__\<close> in double arithmetic: \<^verbatim>\<open>barTotalDuration\<close> is the rounded quotient of
  the two converted integers, the rest closes the gap with the rounded difference.
\<close>

definition Bar_init_fl :: "float_arith \<Rightarrow> Note list \<Rightarrow> int \<Rightarrow> int \<Rightarrow> error + Bar" where
  "Bar_init_fl fa ns beats dv =
     (case fdiv_fl fa (rnd fa (real_of_int beats)) (rnd fa (real_of_int dv)) of
        Inl e \<Rightarrow> Inl e
      | Inr barTotalDuration \<Rightarrow>
          (case Bar_loop_fl fa barTotalDuration ns [] 0 of
             Inl e \<Rightarrow> Inl e
           | Inr (acc, notesTotalDuration) \<Rightarrow>
               if notesTotalDuration < barTotalDuration
               then (case Note_rest (rnd fa (barTotalDuration - notesTotalDuration)) of
                       Inl e \<Rightarrow> Inl e
                     | Inr r \<Rightarrow>
                         Inr \<lparr>numberOfBeats = beats, divisor = dv, Bar_notes = acc @ [r]\<rparr>)
               else Inr \<lparr>numberOfBeats = beats, divisor = dv, Bar_notes = acc\<rparr>))"















subsection \<open>Closed forms in double arithmetic\<close>



definition frames_fl :: "float_arith \<Rightarrow> real \<Rightarrow> int \<Rightarrow> Bar \<Rightarrow> Note \<Rightarrow> int" where
  "frames_fl fa bps bitRate b n =
     py_int (rnd fa (rnd fa (real_of_int bitRate)
                     * rnd fa (rnd fa (rnd fa (real_of_int (divisor b)) * duration n) / bps)))"




section \<open>Properties\<close>

subsection \<open>Note construction and frequency\<close>

text \<open>
  Claim C9, as the code has it: \<^verbatim>\<open>Note.__init__\<close> validates nothing. For every duration,
  also zero and negative ones, construction succeeds and stores the duration unchanged;
  there is no \<open>InvalidDuration\<close> condition.
\<close>

theorem Note_init_never_fails:
  "Note_init d t oc s dy =
     Inr \<lparr>duration = d, tone = t, octave = oc, sign = s, dynamic = dy\<rparr>"
  by (simp add: Note_init_def)

text \<open>\<^verbatim>\<open>Note(-1)\<close> is constructed, with the duration \<open>- 1\<close>.\<close>

theorem Note_init_negative_duration_accepted:
  "Note_init (- 1) None 0 0 Dynamic_mf =
     Inr \<lparr>duration = - 1, tone = None, octave = 0, sign = 0, dynamic = Dynamic_mf\<rparr>"
  by (simp add: Note_init_def)

text \<open>
  The tone A at octave 0 with sign 0 has the frequency \<open>440 * 2 powr (9 / 12)\<close>, which is
  not 440.
\<close>

theorem frequency_A_0_0_not_440:
  "frequency \<lparr>duration = 1, tone = Some Tone_A, octave = 0, sign = 0, dynamic = Dynamic_mf\<rparr>
     \<noteq> Some 440"
  by (simp add: frequency_def)

text \<open>
  Over the reals one octave more doubles the value of the formula. On doubles the two
  sides are separate results of \<^verbatim>\<open>math.pow\<close>, each with its own rounding.
\<close>

lemma octave_up:
  "2 powr ((real_of_int ((oc + 1) * 12 + tv) + s) / 12)
     = 2 * 2 powr ((real_of_int (oc * 12 + tv) + s) / 12)"
proof -
  have "(real_of_int ((oc + 1) * 12 + tv) + s) / 12 = 1 + (real_of_int (oc * 12 + tv) + s) / 12"
    by (simp add: field_simps)
  then have "2 powr ((real_of_int ((oc + 1) * 12 + tv) + s) / 12)
       = 2 powr (1 + (real_of_int (oc * 12 + tv) + s) / 12)"
    by (rule arg_cong)
  also have "\<dots> = 2 powr 1 * 2 powr ((real_of_int (oc * 12 + tv) + s) / 12)"
    by (rule powr_add)
  finally show ?thesis by simp
qed


subsection \<open>Bar construction\<close>

text \<open>What the loop returns when no note overflows, and that it raises nothing else.\<close>

lemma Bar_loop_result:
  "Bar_loop bt ns acc tot = Inr (acc', tot') \<Longrightarrow>
   acc' = acc @ ns \<and> tot' = tot + sum_list (map duration ns) \<and> (tot \<le> bt \<longrightarrow> tot' \<le> bt)"
proof (induction ns arbitrary: acc tot)
  case Nil
  then show ?case by simp
next
  case (Cons n ns)
  from Cons.prems have fits: "tot + duration n \<le> bt"
    by (simp split: if_splits)
  with Cons.prems have "Bar_loop bt ns (acc @ [n]) (tot + duration n) = Inr (acc', tot')"
    by simp
  from Cons.IH [OF this] fits show ?case
    by (simp add: add.assoc)
qed

lemma Bar_loop_error:
  "Bar_loop bt ns acc tot = Inl e \<Longrightarrow> e = AttributeError"
  by (induction ns arbitrary: acc tot) (auto split: if_splits)

lemma Bar_loop_overflow:
  "k < length ns \<Longrightarrow> tot + sum_list (map duration (take (Suc k) ns)) > bt \<Longrightarrow>
   \<forall>j<k. tot + sum_list (map duration (take (Suc j) ns)) \<le> bt \<Longrightarrow>
   Bar_loop bt ns acc tot = Inl AttributeError"
proof (induction ns arbitrary: acc tot k)
  case Nil
  then show ?case by simp
next
  case (Cons n ns)
  show ?case
  proof (cases k)
    case 0
    with Cons.prems show ?thesis by simp
  next
    case (Suc k')
    have first: "tot + duration n \<le> bt"
      using Cons.prems(3) [rule_format, of 0] Suc by simp
    have later: "\<forall>j<k'. (tot + duration n) + sum_list (map duration (take (Suc j) ns)) \<le> bt"
    proof (intro allI impI)
      fix j assume "j < k'"
      then have "Suc j < k" using Suc by simp
      from Cons.prems(3) [rule_format, OF this] show
        "(tot + duration n) + sum_list (map duration (take (Suc j) ns)) \<le> bt"
        by (simp add: add.assoc)
    qed
    have "Bar_loop bt ns (acc @ [n]) (tot + duration n) = Inl AttributeError"
      using Cons.prems Suc later by (intro Cons.IH [of k']) (simp_all add: add.assoc)
    with first show ?thesis by simp
  qed
qed

lemma Bar_init_overflow:
  assumes "dv \<noteq> 0" "k < length ns"
    and "sum_list (map duration (take (Suc k) ns)) > real_of_int beats / real_of_int dv"
    and "\<forall>j<k. sum_list (map duration (take (Suc j) ns)) \<le> real_of_int beats / real_of_int dv"
  shows "Bar_init ns beats dv = Inl AttributeError"
  using Bar_loop_overflow [where k = k and ns = ns and tot = 0
      and bt = "real_of_int beats / real_of_int dv" and acc = "[]"] assms
  by (simp add: Bar_init_def)

lemma Bar_init_sum:
  assumes "Bar_init ns beats dv = Inr b" and "0 < beats" and "0 < dv"
  shows "sum_list (map duration (Bar_notes b)) = real_of_int beats / real_of_int dv"
proof -
  let ?bt = "real_of_int beats / real_of_int dv"
  from assms obtain acc tot where loop: "Bar_loop ?bt ns [] 0 = Inr (acc, tot)"
    by (auto simp: Bar_init_def Let_def split: sum.splits)
  have "0 \<le> ?bt" using assms(2,3) by simp
  with Bar_loop_result [OF loop]
  have acc: "acc = ns" and tot: "tot = sum_list (map duration ns)" and le: "tot \<le> ?bt"
    by simp_all
  show ?thesis
  proof (cases "tot < ?bt")
    case True
    with assms loop acc tot show ?thesis
      by (auto simp: Bar_init_def Note_rest_def Note_init_def)
  next
    case False
    with le have "tot = ?bt" by simp
    with assms loop acc tot show ?thesis
      by (auto simp: Bar_init_def)
  qed
qed


text \<open>
  Claim C1 at a failing input: \<^verbatim>\<open>Bar([Note(1.0, tone=Tone.C, dynamic=Dynamic.f)], 1, 2)\<close>.
  The first note overflows the bar of length \<open>1 / 2\<close>; no bar with a clipped note of
  duration \<open>1 / 2\<close> is built, the construction raises \<^verbatim>\<open>AttributeError\<close>.
\<close>

theorem Bar_init_clipping_raises:
  "Bar_init [\<lparr>duration = 1, tone = Some Tone_C, octave = 0, sign = 0, dynamic = Dynamic_f\<rparr>] 1 2
     = Inl AttributeError"
  by (simp add: Bar_init_def)

text \<open>
  Claim C2 at a failing input: two rests of durations \<open>1 / 4\<close> and \<open>1 / 2\<close> in a bar of
  length \<open>1 / 2\<close>. The second note overflows and the construction raises, so there is no
  bar whose durations sum to \<open>1 / 2\<close>.
\<close>

theorem Bar_init_overflow_no_bar:
  "Bar_init [\<lparr>duration = 1 / 4, tone = None, octave = 0, sign = 0, dynamic = Dynamic_mf\<rparr>,
             \<lparr>duration = 1 / 2, tone = None, octave = 0, sign = 0, dynamic = Dynamic_mf\<rparr>] 1 2
     = Inl AttributeError"
  by (simp add: Bar_init_def)

subsection \<open>Waveform data: the loops in closed form\<close>

text \<open>
  A frame of a pitched note lies between 2 and 254, since the amplitude is at most 126
  and the ramps lie between 0 and 1; so \<^verbatim>\<open>chr\<close> never raises, and the divisions of the
  loop body are never by zero at an index below \<^verbatim>\<open>numberOfFrames\<close>.
\<close>

lemma py_int_in_byte:
  assumes "0 \<le> r" and "r < 256"
  shows "0 \<le> py_int r \<and> py_int r < 256"
  using assms by (simp add: py_int_def floor_less_iff)

lemma chr_py_128: "chr_py 128 = Inr (CHR 0x80)"
  by (simp add: chr_py_def char_of_def)

lemma rest_loop_eq:
  "rest_loop xs chunk = Inr (chunk @ replicate (length xs) (CHR 0x80))"
  by (induction xs arbitrary: chunk) (simp_all add: chr_py_128 replicate_app_Cons_same)

lemma envelope_bounds:
  assumes "int x < nf"
  shows "0 \<le> envelope nf fadeIn fadeOut x \<and> envelope nf fadeIn fadeOut x \<le> 1"
proof (cases "int x < fadeIn")
  case True
  then have "real x < real_of_int fadeIn" by linarith
  with True show ?thesis by (simp add: envelope_def)
next
  case False
  show ?thesis
  proof (cases "int x \<ge> nf - fadeOut")
    case True
    with assms have pos: "0 < real_of_int fadeOut" by linarith
    have lo: "0 \<le> real x - real_of_int (nf - fadeOut)" using True by linarith
    have hi: "real x - real_of_int (nf - fadeOut) \<le> real_of_int fadeOut" using assms by simp
    from pos lo hi have "0 \<le> (real x - real_of_int (nf - fadeOut)) / real_of_int fadeOut"
      and "(real x - real_of_int (nf - fadeOut)) / real_of_int fadeOut \<le> 1"
      by (simp_all add: divide_le_eq)
    with False True show ?thesis by (simp add: envelope_def)
  next
    case False
    with \<open>\<not> int x < fadeIn\<close> show ?thesis by (simp add: envelope_def)
  qed
qed

lemma frame_at_eq:
  assumes "bitRate \<noteq> 0" and "int x < nf"
  shows "frame_at bitRate freq amplitude nf fadeIn fadeOut x
           = Inr (frame_value bitRate freq amplitude nf fadeIn fadeOut x)"
proof -
  have in_ok: "int x < fadeIn \<Longrightarrow> real_of_int fadeIn \<noteq> 0" by auto
  have out_ok: "int x \<ge> nf - fadeOut \<Longrightarrow> real_of_int fadeOut \<noteq> 0" using assms(2) by auto
  show ?thesis
    using assms(1) in_ok out_ok
    by (simp add: frame_at_def frame_value_def envelope_def fdiv_def Let_def)
qed

lemma frame_value_bounds:
  assumes "int x < nf" and "0 \<le> amplitude" and "amplitude \<le> 126"
  shows "2 \<le> frame_value bitRate freq amplitude nf fadeIn fadeOut x
       \<and> frame_value bitRate freq amplitude nf fadeIn fadeOut x \<le> 254"
proof -
  define s where "s = sin (real x / real_of_int bitRate * freq * TWO_PI)"
  define m where "m = envelope nf fadeIn fadeOut x * amplitude"
  have m0: "0 \<le> m" and m1: "m \<le> 126"
    using envelope_bounds [OF assms(1), of fadeIn fadeOut] assms(2,3)
    by (auto simp: m_def intro: mult_nonneg_nonneg mult_le_one order_trans [OF mult_mono])
  have "\<bar>s * m\<bar> \<le> 1 * m"
    unfolding abs_mult using m0 by (intro mult_mono) (simp_all add: s_def)
  with m1 have "\<bar>s * m\<bar> \<le> 126" by simp
  then show ?thesis
    by (simp add: frame_value_def s_def m_def abs_le_iff)
qed

lemma Dynamic_value_bounds: "0 \<le> Dynamic_value dy \<and> Dynamic_value dy \<le> 126"
  by (cases dy) simp_all

lemma pitched_loop_eq:
  assumes "bitRate \<noteq> 0" and "0 \<le> amplitude" and "amplitude \<le> 126"
    and "\<forall>x\<in>set xs. int x < nf"
  shows "pitched_loop bitRate freq amplitude nf fadeIn fadeOut xs chunk
           = Inr (chunk @ map (\<lambda>x. char_of (py_int
                     (frame_value bitRate freq amplitude nf fadeIn fadeOut x))) xs)"
  using assms(4)
proof (induction xs arbitrary: chunk)
  case Nil
  then show ?case by simp
next
  case (Cons x xs)
  from Cons.prems have x: "int x < nf" by simp
  from frame_value_bounds [OF x assms(2,3), of bitRate freq fadeIn fadeOut]
  have "0 \<le> frame_value bitRate freq amplitude nf fadeIn fadeOut x"
    and "frame_value bitRate freq amplitude nf fadeIn fadeOut x < 256"
    by simp_all
  from py_int_in_byte [OF this]
  have chr: "chr_py (py_int (frame_value bitRate freq amplitude nf fadeIn fadeOut x))
      = Inr (char_of (py_int (frame_value bitRate freq amplitude nf fadeIn fadeOut x)))"
    by (simp add: chr_py_def)
  from Cons.prems have "\<forall>x\<in>set xs. int x < nf" by simp
  from Cons.IH [OF this] frame_at_eq [OF assms(1) x] chr show ?case
    by simp
qed

lemma numberOfFrames_eq:
  "bps \<noteq> 0 \<Longrightarrow> numberOfFrames bps bitRate b n = Inr (frames_of bps bitRate b n)"
  by (simp add: numberOfFrames_def frames_of_def fdiv_def)

lemma xrange_bound: "\<forall>x\<in>set (xrange nf). int x < nf"
  by (auto simp: xrange_def)

lemma render_note_eq:
  assumes "bps \<noteq> 0"
  shows "render_note bps bitRate b n = Inr (chunk_of bps bitRate b n)"
proof (cases "frequency n")
  case None
  then show ?thesis
    using assms
    by (simp add: render_note_def numberOfFrames_eq chunk_of_def rest_loop_eq xrange_def Let_def)
next
  case (Some freq)
  let ?nf = "frames_of bps bitRate b n"
  let ?amp = "real_of_int (Dynamic_value (dynamic n))"
  have amp: "0 \<le> ?amp" "?amp \<le> 126"
    using Dynamic_value_bounds [of "dynamic n"] by simp_all
  show ?thesis
  proof (cases "bitRate = 0")
    case True
    then have "?nf = 0" by (simp add: frames_of_def py_int_def)
    with Some assms show ?thesis
      by (simp add: render_note_def numberOfFrames_eq chunk_of_def xrange_def Let_def)
  next
    case False
    from pitched_loop_eq [OF False amp xrange_bound, where freq = freq and nf = ?nf]
    show ?thesis
      using Some assms by (simp add: render_note_def numberOfFrames_eq chunk_of_def Let_def)
  qed
qed

lemma notes_loop_eq:
  "bps \<noteq> 0 \<Longrightarrow>
   notes_loop bps bitRate b ns waveData = Inr (waveData @ map (chunk_of bps bitRate b) ns)"
  by (induction ns arbitrary: waveData) (simp_all add: render_note_eq)

lemma bars_loop_eq:
  "bps \<noteq> 0 \<Longrightarrow>
   bars_loop bps bitRate bs waveData
     = Inr (waveData @ concat (map (\<lambda>b. map (chunk_of bps bitRate b) (Bar_notes b)) bs))"
  by (induction bs arbitrary: waveData) (simp_all add: notes_loop_eq)

lemma convertToWaveData_eq:
  assumes "bpm c \<noteq> 0"
  shows "convertToWaveData c bitRate
           = Inr (map (\<lambda>(b, n). chunk_of (bpm c / 60) bitRate b n) (score c))"
proof -
  have "bpm c / 60 \<noteq> 0" using assms by simp
  from bars_loop_eq [OF this, of bitRate "bars c" "[]"] show ?thesis
    by (simp add: convertToWaveData_def score_def map_concat comp_def)
qed






subsection \<open>The samples of a pitched note\<close>












text \<open>
  Claim C10: the fade-in branch is taken only when \<open>fadeInFrames \<ge> 1\<close>, the fade-out
  branch at an index below \<^verbatim>\<open>numberOfFrames\<close> only when \<open>fadeOutFrames \<ge> 1\<close>, so the loop
  body returns a frame and no \<^verbatim>\<open>ZeroDivisionError\<close>; and the conversion of every
  composition with a tempo other than zero returns waveform data.
\<close>

theorem fade_divisions_safe:
  "(int x1 < fadeInFrames R nf \<longrightarrow> 1 \<le> fadeInFrames R nf)
   \<and> (int x2 < nf \<and> nf - fadeOutFrames R nf \<le> int x2 \<longrightarrow> 1 \<le> fadeOutFrames R nf)
   \<and> (int x3 < nf \<and> R \<noteq> 0 \<longrightarrow>
        (\<exists>v. frame_at R fr amp nf (fadeInFrames R nf) (fadeOutFrames R nf) x3 = Inr v))
   \<and> (bpm c \<noteq> 0 \<longrightarrow> (\<exists>w. convertToWaveData c R = Inr w))"
proof (intro conjI impI)
  show "1 \<le> fadeInFrames R nf" if "int x1 < fadeInFrames R nf"
    using that by linarith
  show "1 \<le> fadeOutFrames R nf" if "int x2 < nf \<and> nf - fadeOutFrames R nf \<le> int x2"
    using that by linarith
  show "\<exists>v. frame_at R fr amp nf (fadeInFrames R nf) (fadeOutFrames R nf) x3 = Inr v"
    if "int x3 < nf \<and> R \<noteq> 0"
    using that frame_at_eq [of R x3 nf] by simp
  show "\<exists>w. convertToWaveData c R = Inr w" if "bpm c \<noteq> 0"
    using convertToWaveData_eq [OF that, of R] by simp
qed

text \<open>A quarter note A at 120 BPM and 44100 Hz: 22050 frames, 220 to fade in, 221 to fade out.\<close>

theorem fade_divisions_safe_witness:
  "1 \<le> fadeInFrames 44100 22050 \<and> 1 \<le> fadeOutFrames 44100 22050
   \<and> (\<exists>v. frame_at 44100 440 96 22050 (fadeInFrames 44100 22050) (fadeOutFrames 44100 22050) 0 = Inr v)
   \<and> (\<exists>w. convertToWaveData
     \<lparr>bars = [\<lparr>numberOfBeats = 1, divisor = 4,
               Bar_notes = [\<lparr>duration = 1 / 4, tone = Some Tone_A, octave = 0, sign = 0, dynamic = Dynamic_f\<rparr>]\<rparr>],
      bpm = 120\<rparr> 44100 = Inr w)"
  using fade_divisions_safe [of 0 44100 22050 22049 0 440 96
     "\<lparr>bars = [\<lparr>numberOfBeats = 1, divisor = 4,
               Bar_notes = [\<lparr>duration = 1 / 4, tone = Some Tone_A, octave = 0, sign = 0, dynamic = Dynamic_f\<rparr>]\<rparr>],
      bpm = 120\<rparr>"]
  by (simp add: fadeInFrames_def fadeOutFrames_def fadingFrames_def py_int_def)

section \<open>Properties in double arithmetic\<close>

subsection \<open>Rounding\<close>

lemma float_rounding_mono: "float_rounding r \<Longrightarrow> x \<le> y \<Longrightarrow> r x \<le> r y"
  by (simp add: float_rounding_def)


lemma float_rounding_int: "float_rounding r \<Longrightarrow> \<bar>k\<bar> \<le> 2 ^ 53 \<Longrightarrow> r (real_of_int k) = real_of_int k"
  by (simp add: float_rounding_def)

lemma float_rounding_numeral:
  assumes "float_rounding r"
  shows "r 0 = 0" and "r 1 = 1" and "r 12 = 12" and "r 60 = 60" and "r 128 = 128"
    and "r 440 = 440" and "r 126 = 126" and "r (- 126) = - 126" and "r 2 = 2" and "r 254 = 254"
  using float_rounding_int [OF assms, of 0] float_rounding_int [OF assms, of 1]
    float_rounding_int [OF assms, of 12] float_rounding_int [OF assms, of 60]
    float_rounding_int [OF assms, of 128] float_rounding_int [OF assms, of 440]
    float_rounding_int [OF assms, of 126] float_rounding_int [OF assms, of "- 126"]
    float_rounding_int [OF assms, of 2] float_rounding_int [OF assms, of 254]
  by simp_all

lemma float_rounding_exact: "float_rounding (\<lambda>x. x)"
  by (simp add: float_rounding_def)







subsection \<open>Frequency\<close>

text \<open>
  Claim C3, as the code has it, with \<open>e = (o*12 + t + s)/12.0\<close> in double arithmetic: a
  pitched note of tone \<open>t\<close>, octave \<open>o\<close> and sign \<open>s\<close> (any double, so quarter tones too) has
  the frequency \<open>440 * math.pow(2, e)\<close>, each operation rounded, when \<open>e < 1024\<close> and the
  product is a double; from \<open>e = 1024\<close> on \<^verbatim>\<open>math.pow\<close> raises \<^verbatim>\<open>OverflowError\<close>; below 1024
  the frequency is positive whenever the power has not underflowed to zero; and the
  frequency is exactly 440 for the tone C (semitone 0) at octave 0 with sign 0, the
  power of 0 being 1.
\<close>

theorem frequency_fl_formula:
  assumes "float_rounding (rnd fa)" and "pow2_fl fa 0 = 1"
  shows "(octaves_fl fa \<lparr>duration = d, tone = Some t, octave = oc, sign = s, dynamic = dy\<rparr> t < 1024 \<and>
          440 * pow2_fl fa (octaves_fl fa \<lparr>duration = d, tone = Some t, octave = oc, sign = s, dynamic = dy\<rparr> t)
            \<le> DBL_MAX \<longrightarrow>
          frequency_fl fa \<lparr>duration = d, tone = Some t, octave = oc, sign = s, dynamic = dy\<rparr>
            = Inr (Some (rnd fa (440 * pow2_fl fa
                (rnd fa (rnd fa (rnd fa (real_of_int (oc * 12 + Tone_value t)) + s) / 12))))))
       \<and> (1024 \<le> octaves_fl fa \<lparr>duration = d, tone = Some t, octave = oc, sign = s, dynamic = dy\<rparr> t \<longrightarrow>
          frequency_fl fa \<lparr>duration = d, tone = Some t, octave = oc, sign = s, dynamic = dy\<rparr>
            = Inl OverflowError)
       \<and> (octaves_fl fa \<lparr>duration = d, tone = Some t, octave = oc, sign = s, dynamic = dy\<rparr> t < 1024 \<and>
          0 < pow2_fl fa (octaves_fl fa \<lparr>duration = d, tone = Some t, octave = oc, sign = s, dynamic = dy\<rparr> t) \<and>
          rnd fa (pow2_fl fa (octaves_fl fa \<lparr>duration = d, tone = Some t, octave = oc, sign = s, dynamic = dy\<rparr> t))
            = pow2_fl fa (octaves_fl fa \<lparr>duration = d, tone = Some t, octave = oc, sign = s, dynamic = dy\<rparr> t) \<longrightarrow>
          (\<exists>h. frequency_fl fa \<lparr>duration = d, tone = Some t, octave = oc, sign = s, dynamic = dy\<rparr>
                  = Inr (Some h) \<and> 0 < h))
       \<and> frequency_fl fa \<lparr>duration = d, tone = Some Tone_C, octave = 0, sign = 0, dynamic = dy\<rparr>
            = Inr (Some 440)"
proof (intro conjI impI)
  let ?n = "\<lparr>duration = d, tone = Some t, octave = oc, sign = s, dynamic = dy\<rparr>"
  let ?e = "octaves_fl fa ?n t"
  show "frequency_fl fa ?n = Inr (Some (rnd fa (440 * pow2_fl fa
                (rnd fa (rnd fa (rnd fa (real_of_int (oc * 12 + Tone_value t)) + s) / 12)))))"
    if "?e < 1024 \<and> 440 * pow2_fl fa ?e \<le> DBL_MAX"
    using that by (simp add: frequency_fl_def math_pow2_def octaves_fl_def)
  show "frequency_fl fa ?n = Inl OverflowError" if "1024 \<le> ?e"
    using that by (simp add: frequency_fl_def math_pow2_def)
  show "\<exists>h. frequency_fl fa ?n = Inr (Some h) \<and> 0 < h"
    if "?e < 1024 \<and> 0 < pow2_fl fa ?e \<and> rnd fa (pow2_fl fa ?e) = pow2_fl fa ?e"
  proof -
    from that have pos: "0 < pow2_fl fa ?e" and dbl: "rnd fa (pow2_fl fa ?e) = pow2_fl fa ?e"
      and small: "?e < 1024" by simp_all
    have "rnd fa (pow2_fl fa ?e) \<le> rnd fa (440 * pow2_fl fa ?e)"
      using pos by (intro float_rounding_mono [OF assms(1)]) simp
    with pos dbl have "0 < rnd fa (440 * pow2_fl fa ?e)" by simp
    with small show ?thesis
      by (simp add: frequency_fl_def math_pow2_def)
  qed
  show "frequency_fl fa \<lparr>duration = d, tone = Some Tone_C, octave = 0, sign = 0, dynamic = dy\<rparr>
            = Inr (Some 440)"
    using assms(2)
    by (simp add: frequency_fl_def math_pow2_def octaves_fl_def float_rounding_numeral [OF assms(1)])
qed

lemma DBL_MAX_ge: "440 \<le> DBL_MAX"
proof -
  have "(1::real) \<le> 2 ^ 971" by simp
  moreover have "(440::real) \<le> 2 ^ 53 - 1" by simp
  ultimately have "440 * 1 \<le> (2 ^ 53 - 1) * (2 ^ 971 :: real)"
    by (intro mult_mono) simp_all
  then show ?thesis by (simp add: DBL_MAX_def)
qed

text \<open>
  Without rounding error: A at octave \<open>- 1\<close> has the positive frequency
  \<open>440 * 2 powr (- 1 / 4)\<close>, C at octave 1024 raises, C at octave 0 has 440.
\<close>

theorem frequency_fl_formula_witness:
  "frequency_fl exact_arith
       \<lparr>duration = 1, tone = Some Tone_A, octave = - 1, sign = 0, dynamic = Dynamic_mf\<rparr>
     = Inr (Some (440 * 2 powr (- 1 / 4)))
   \<and> frequency_fl exact_arith
       \<lparr>duration = 1, tone = Some Tone_C, octave = 1024, sign = 0, dynamic = Dynamic_mf\<rparr>
     = Inl OverflowError
   \<and> (\<exists>h. frequency_fl exact_arith
       \<lparr>duration = 1, tone = Some Tone_A, octave = - 1, sign = 0, dynamic = Dynamic_mf\<rparr>
         = Inr (Some h) \<and> 0 < h)
   \<and> frequency_fl exact_arith
       \<lparr>duration = 1, tone = Some Tone_C, octave = 0, sign = 0, dynamic = Dynamic_mf\<rparr>
     = Inr (Some 440)"
proof -
  have le: "440 * 2 powr (- 1 / 4) \<le> DBL_MAX"
  proof -
    have "(2::real) powr (- 1 / 4) \<le> 2 powr 0" by (intro powr_mono) simp_all
    then have "440 * 2 powr (- 1 / 4) \<le> (440::real)" by simp
    with DBL_MAX_ge show ?thesis by simp
  qed
  show ?thesis
    using frequency_fl_formula [of exact_arith 1 Tone_A "- 1" 0 Dynamic_mf]
      frequency_fl_formula [of exact_arith 1 Tone_C 1024 0 Dynamic_mf] le
    by (simp add: exact_arith_def float_rounding_exact octaves_fl_def)
qed

subsection \<open>Bar construction\<close>





text \<open>
  Three notes of the duration \<open>d\<close> in a 4/4 bar whose rounded sums are \<open>d\<close>, \<open>d2\<close> and 1 are
  stored without a rest. This is \<^verbatim>\<open>Bar([Note(1.0/3)]*3, 4, 4)\<close>: for the double \<open>d\<close>
  nearest to \<open>1 / 3\<close>, \<open>d + d\<close> is a double and \<open>d + d + d\<close> rounds to 1.
\<close>

lemma Bar_init_fl_three_notes:
  assumes "float_rounding (rnd fa)"
    and "rnd fa (0 + d) = d" and "rnd fa (d + d) = d2" and "rnd fa (d2 + d) = 1"
    and "d \<le> 1" and "d2 \<le> 1"
  shows "Bar_init_fl fa (replicate 3
            \<lparr>duration = d, tone = None, octave = 0, sign = 0, dynamic = Dynamic_mf\<rparr>) 4 4
         = Inr \<lparr>numberOfBeats = 4, divisor = 4, Bar_notes = replicate 3
            \<lparr>duration = d, tone = None, octave = 0, sign = 0, dynamic = Dynamic_mf\<rparr>\<rparr>"
proof -
  let ?n = "\<lparr>duration = d, tone = None, octave = 0, sign = 0, dynamic = Dynamic_mf\<rparr>"
  have four: "rnd fa 4 = 4" using float_rounding_int [OF assms(1), of 4] by simp
  have one: "rnd fa 1 = 1" by (rule float_rounding_numeral(2) [OF assms(1)])
  have bt: "fdiv_fl fa (rnd fa (real_of_int 4)) (rnd fa (real_of_int 4)) = Inr 1"
    by (simp add: fdiv_fl_def four one)
  have l3: "Bar_loop_fl fa 1 [?n] [?n, ?n] d2 = Inr ([?n, ?n, ?n], 1)"
    using assms(4) by simp
  have l2: "Bar_loop_fl fa 1 [?n, ?n] [?n] d = Inr ([?n, ?n, ?n], 1)"
    using assms(3,6) l3 by simp
  have l1: "Bar_loop_fl fa 1 [?n, ?n, ?n] [] 0 = Inr ([?n, ?n, ?n], 1)"
    using assms(2,5) l2 by simp
  have rep: "replicate 3 ?n = [?n, ?n, ?n]"
    by (simp add: eval_nat_numeral)
  show ?thesis
    unfolding rep Bar_init_fl_def bt using l1 by simp
qed

text \<open>Without rounding error the construction is the one of the first model.\<close>

lemma Bar_loop_fl_exact: "Bar_loop_fl exact_arith bt ns acc tot = Bar_loop bt ns acc tot"
  by (induction ns arbitrary: acc tot) (simp_all add: exact_arith_def)

lemma Bar_init_fl_exact: "Bar_init_fl exact_arith ns beats dv = Bar_init ns beats dv"
proof (cases "dv = 0")
  case True
  then show ?thesis
    by (simp add: Bar_init_fl_def Bar_init_def fdiv_fl_def exact_arith_def)
next
  case False
  then have "fdiv_fl exact_arith (rnd exact_arith (real_of_int beats)) (rnd exact_arith (real_of_int dv))
      = Inr (real_of_int beats / real_of_int dv)"
    by (simp add: fdiv_fl_def exact_arith_def)
  moreover have "rnd exact_arith x = x" for x
    by (simp add: exact_arith_def)
  ultimately show ?thesis
    using False
    by (simp add: Bar_init_fl_def Bar_init_def Bar_loop_fl_exact Let_def
        split: sum.splits prod.splits)
qed

subsection \<open>Waveform data\<close>















text \<open>
  \<^verbatim>\<open>Note(3.0/16)\<close> in a bar of divisor 4 at 100 BPM and 44100 Hz, with the roundings of
  IEEE 754 as hypotheses: \<^verbatim>\<open>bps\<close> is the double nearest to \<open>100 / 60\<close>, the duration in
  seconds rounds to just under 0.45, the product to 19844.999999999996, and the note
  has 19844 frames.
\<close>

lemma frames_fl_steps:
  assumes "rnd fa (real_of_int R) = Rf" and "rnd fa (real_of_int (divisor b)) = vf"
    and "rnd fa (vf * duration n) = p" and "rnd fa (p / bps) = d" and "rnd fa (Rf * d) = q"
  shows "frames_fl fa bps R b n = py_int q"
  using assms by (simp add: frames_fl_def)

lemma frames_fl_100_bpm:
  assumes "rnd fa (real_of_int 44100) = 44100"
    and "rnd fa (real_of_int (divisor \<lparr>numberOfBeats = 4, divisor = 4, Bar_notes = ns\<rparr>)) = 4"
    and "rnd fa (4 * duration \<lparr>duration = 3 / 16, tone = None, octave = 0, sign = 0,
             dynamic = Dynamic_mf\<rparr>) = 3 / 4"
    and "rnd fa (3 / 4 / (7505999378950827 / 4503599627370496))
           = 2026619832316723 / 4503599627370496"
    and "rnd fa (44100 * (2026619832316723 / 4503599627370496))
           = 5454952063303679 / 274877906944"
  shows "frames_fl fa (7505999378950827 / 4503599627370496) 44100
           \<lparr>numberOfBeats = 4, divisor = 4, Bar_notes = ns\<rparr>
           \<lparr>duration = 3 / 16, tone = None, octave = 0, sign = 0, dynamic = Dynamic_mf\<rparr>
         = 19844"
proof -
  have "py_int (5454952063303679 / 274877906944) = 19844"
    by (simp add: py_int_def)
  with frames_fl_steps [OF assms] show ?thesis by simp
qed



subsection \<open>The samples of a pitched note\<close>










end
